theory Spec2Isabelle
  imports Complex_Main "HOL-Library.Sublist" "HOL-Library.AList"
begin

section \<open>Numbers of the table\<close>

text \<open>
  The script \<^verbatim>\<open>Ejemplo.py\<close> works on float64 columns. A value is the missing-marker
  \<open>NaN\<close>, one of the two infinities, or a finite number. Finite arithmetic is exact
  (real numbers): rounding, overflow and the sign of zero are not modelled. The special
  values follow IEEE 754, which numpy and pandas use: \<open>x / 0\<close> is an infinity for
  \<open>x \<noteq> 0\<close> and \<open>NaN\<close> for \<open>x = 0\<close>, no exception is raised.
\<close>

datatype fl = NInf | Fin real | PInf | NaN

fun fl_neg :: "fl \<Rightarrow> fl" where
  "fl_neg NaN = NaN"
| "fl_neg PInf = NInf"
| "fl_neg NInf = PInf"
| "fl_neg (Fin a) = Fin (- a)"

fun fl_add :: "fl \<Rightarrow> fl \<Rightarrow> fl" where
  "fl_add NaN _ = NaN"
| "fl_add _ NaN = NaN"
| "fl_add PInf NInf = NaN"
| "fl_add NInf PInf = NaN"
| "fl_add PInf _ = PInf"
| "fl_add _ PInf = PInf"
| "fl_add NInf _ = NInf"
| "fl_add _ NInf = NInf"
| "fl_add (Fin a) (Fin b) = Fin (a + b)"

definition fl_sub :: "fl \<Rightarrow> fl \<Rightarrow> fl" where
  "fl_sub a b = fl_add a (fl_neg b)"

text \<open>The sign of a value that is not \<open>NaN\<close>: \<open>-1\<close>, \<open>0\<close> or \<open>1\<close>.\<close>

fun fl_sgn :: "fl \<Rightarrow> int" where
  "fl_sgn (Fin a) = (if a < 0 then - 1 else if a = 0 then 0 else 1)"
| "fl_sgn PInf = 1"
| "fl_sgn NInf = - 1"
| "fl_sgn NaN = 0"

definition fl_inf :: "int \<Rightarrow> fl" where
  "fl_inf s = (if s < 0 then NInf else if s = 0 then NaN else PInf)"

fun fl_mul :: "fl \<Rightarrow> fl \<Rightarrow> fl" where
  "fl_mul NaN _ = NaN"
| "fl_mul _ NaN = NaN"
| "fl_mul (Fin a) (Fin b) = Fin (a * b)"
| "fl_mul a b = fl_inf (fl_sgn a * fl_sgn b)"

fun fl_div :: "fl \<Rightarrow> fl \<Rightarrow> fl" where
  "fl_div NaN _ = NaN"
| "fl_div _ NaN = NaN"
| "fl_div (Fin a) (Fin b) = (if b = 0 then fl_inf (fl_sgn (Fin a)) else Fin (a / b))"
| "fl_div (Fin a) _ = Fin 0"
| "fl_div a (Fin b) = (if b < 0 then fl_neg a else a)"
| "fl_div _ _ = NaN"

fun fl_sqrt :: "fl \<Rightarrow> fl" where
  "fl_sqrt (Fin a) = (if a < 0 then NaN else Fin (sqrt a))"
| "fl_sqrt PInf = PInf"
| "fl_sqrt _ = NaN"

fun isna :: "fl \<Rightarrow> bool" where
  "isna NaN = True"
| "isna _ = False"


text \<open>
  The order in which numpy sorts floats: \<open>-inf\<close>, the finite numbers, \<open>+inf\<close>, and
  \<open>NaN\<close> last. On values that are not \<open>NaN\<close> it is the IEEE comparison.
\<close>

fun fl_le :: "fl \<Rightarrow> fl \<Rightarrow> bool" where
  "fl_le _ NaN = True"
| "fl_le NaN _ = False"
| "fl_le NInf _ = True"
| "fl_le _ NInf = False"
| "fl_le _ PInf = True"
| "fl_le PInf _ = False"
| "fl_le (Fin a) (Fin b) = (a \<le> b)"

instantiation fl :: linorder
begin

definition less_eq_fl :: "fl \<Rightarrow> fl \<Rightarrow> bool" where
  "less_eq_fl a b = fl_le a b"

definition less_fl :: "fl \<Rightarrow> fl \<Rightarrow> bool" where
  "less_fl a b = (fl_le a b \<and> \<not> fl_le b a)"

instance
proof
  fix x y z :: fl
  show "(x < y) = (x \<le> y \<and> \<not> y \<le> x)"
    by (simp add: less_fl_def less_eq_fl_def)
  show "x \<le> x"
    by (cases x) (simp_all add: less_eq_fl_def)
  show "x \<le> y \<Longrightarrow> y \<le> z \<Longrightarrow> x \<le> z"
    by (cases x; cases y; cases z) (simp_all add: less_eq_fl_def)
  show "x \<le> y \<Longrightarrow> y \<le> x \<Longrightarrow> x = y"
    by (cases x; cases y) (simp_all add: less_eq_fl_def)
  show "x \<le> y \<or> y \<le> x"
    by (cases x; cases y) (auto simp add: less_eq_fl_def)
qed

end

section \<open>pandas operations on a float column\<close>

text \<open>\<^verbatim>\<open>Series.dropna\<close>: the reductions below skip the missing entries (\<open>skipna=True\<close>).\<close>

definition dropna :: "fl list \<Rightarrow> fl list" where
  "dropna xs = filter (\<lambda>v. \<not> isna v) xs"

subsection \<open>\<^verbatim>\<open>Series.pct_change\<close>\<close>

text \<open>
  \<^verbatim>\<open>Series.ffill\<close>: a missing entry takes the last valid value before it; leading
  missing entries stay missing. The first argument is the last valid value seen.
\<close>

fun ffill_from :: "fl \<Rightarrow> fl list \<Rightarrow> fl list" where
  "ffill_from prev [] = []"
| "ffill_from prev (x # xs) =
     (if isna x then prev # ffill_from prev xs else x # ffill_from x xs)"

definition ffill :: "fl list \<Rightarrow> fl list" where
  "ffill xs = ffill_from NaN xs"

text \<open>\<^verbatim>\<open>Series.shift(1)\<close>: every value moves one row down, row 0 becomes missing.\<close>

definition shift1 :: "fl list \<Rightarrow> fl list" where
  "shift1 xs = take (length xs) (NaN # xs)"

text \<open>
  \<^verbatim>\<open>pct_change(periods=1, fill_method=...)\<close> of pandas:
  \<^verbatim>\<open>
    data = self if fill_method is None else self.ffill()
    shifted = data.shift(periods=1)
    rs = data / shifted - 1
  \<close>
  The script calls \<^verbatim>\<open>pct_change()\<close> with no argument. The default of pandas up to
  the 2.x series, current when the script was written and its data (1960 to 2023)
  published, is \<^verbatim>\<open>fill_method='pad'\<close>; \<open>NoFill\<close> is \<^verbatim>\<open>fill_method=None\<close>.
\<close>

datatype fill_method = Pad | NoFill

definition pct_change :: "fill_method \<Rightarrow> fl list \<Rightarrow> fl list" where
  "pct_change fm xs =
     (let data = (case fm of Pad \<Rightarrow> ffill xs | NoFill \<Rightarrow> xs);
          shifted = shift1 data
      in map2 (\<lambda>d s. fl_sub (fl_div d s) (Fin 1)) data shifted)"

text \<open>
  Line 71: \<^verbatim>\<open>colombia["Crecimiento (%)"] = colombia["PIB (USD)"].pct_change() * 100\<close>,
  as a function of the column \<^verbatim>\<open>PIB (USD)\<close>.
\<close>

definition crecimiento :: "fl list \<Rightarrow> fl list" where
  "crecimiento pib = map (\<lambda>g. fl_mul g (Fin 100)) (pct_change Pad pib)"


subsection \<open>Reductions\<close>

text \<open>The sum of a column without missing entries.\<close>

definition fl_sum :: "fl list \<Rightarrow> fl" where
  "fl_sum vs = foldr fl_add vs (Fin 0)"

text \<open>
  \<^verbatim>\<open>Series.mean\<close> (\<^verbatim>\<open>nanops.nanmean\<close>): the sum of the valid entries over their count,
  \<open>NaN\<close> when there is none.
\<close>

definition series_mean :: "fl list \<Rightarrow> fl" where
  "series_mean xs =
     (let vs = dropna xs; count = length vs
      in if count = 0 then NaN else fl_div (fl_sum vs) (Fin (real count)))"

text \<open>
  \<^verbatim>\<open>Series.median\<close> (\<^verbatim>\<open>nanops.nanmedian\<close>): the middle of the sorted valid entries, the
  mean of the two middle ones when their count is even, \<open>NaN\<close> when there is none.
\<close>

definition series_median :: "fl list \<Rightarrow> fl" where
  "series_median xs =
     (let s = sort (dropna xs); n = length s
      in if n = 0 then NaN
         else if odd n then s ! (n div 2)
         else fl_div (fl_add (s ! (n div 2 - 1)) (s ! (n div 2))) (Fin 2))"

text \<open>
  \<^verbatim>\<open>Series.mode\<close> (\<open>dropna=True\<close>): the valid values of the highest count, each once,
  sorted ascending; the empty series when there is no valid value.
\<close>

definition series_mode :: "fl list \<Rightarrow> fl list" where
  "series_mode xs =
     (let vs = dropna xs
      in if vs = [] then []
         else let m = Max (set (map (count_list vs) vs))
              in sort (remdups (filter (\<lambda>v. count_list vs v = m) vs)))"

text \<open>
  \<^verbatim>\<open>Series.max\<close> and \<^verbatim>\<open>Series.min\<close> (\<^verbatim>\<open>nanops.nanmax\<close>, \<^verbatim>\<open>nanops.nanmin\<close>): \<open>NaN\<close> on
  the empty column; otherwise the missing entries are filled with \<open>-inf\<close> (\<open>+inf\<close> for
  the minimum), the column is reduced, and the result is nulled when no entry was valid.
\<close>

definition fillna :: "fl \<Rightarrow> fl list \<Rightarrow> fl list" where
  "fillna d xs = map (\<lambda>v. if isna v then d else v) xs"

definition series_max :: "fl list \<Rightarrow> fl" where
  "series_max xs =
     (if xs = [] then NaN
      else let r = Max (set (fillna NInf xs))
           in if dropna xs = [] then NaN else r)"

definition series_min :: "fl list \<Rightarrow> fl" where
  "series_min xs =
     (if xs = [] then NaN
      else let r = Min (set (fillna PInf xs))
           in if dropna xs = [] then NaN else r)"

text \<open>
  \<^verbatim>\<open>Series.var\<close> (\<^verbatim>\<open>nanops.nanvar\<close>, \<open>ddof=1\<close>): with \<open>count\<close> valid entries,
  \<^verbatim>\<open>
    d = count - ddof;  if count <= ddof: return nan
    avg = values.sum() / count
    sqr = (avg - values) ** 2
    result = sqr.sum() / d
  \<close>
  and \<^verbatim>\<open>Series.std\<close> (\<^verbatim>\<open>nanops.nanstd\<close>) is \<^verbatim>\<open>np.sqrt(nanvar(values))\<close>.
\<close>

definition series_var :: "fl list \<Rightarrow> fl" where
  "series_var xs =
     (let vs = dropna xs; count = length vs
      in if count \<le> 1 then NaN
         else let avg = fl_div (fl_sum vs) (Fin (real count));
                  sqr = map (\<lambda>v. fl_mul (fl_sub avg v) (fl_sub avg v)) vs
              in fl_div (fl_sum sqr) (Fin (real (count - 1))))"

definition series_std :: "fl list \<Rightarrow> fl" where
  "series_std xs = fl_sqrt (series_var xs)"

text \<open>
  For the statements about the variance: the sample variance of a list of numbers as
  the specification words it, the squared deviations from the mean summed and divided
  by \<open>N - 1\<close>.
\<close>

definition sample_variance :: "real list \<Rightarrow> real" where
  "sample_variance rs =
     (\<Sum>r\<leftarrow>rs. (r - sum_list rs / real (length rs))\<^sup>2) / real (length rs - 1)"

subsection \<open>Exceptions\<close>

text \<open>
  The script catches nothing: an exception raised by any line ends the run. A
  \<open>KeyError\<close> carries the key that was not found.
\<close>

datatype key = KStr string | KInt int | KNaN

datatype py_error = KeyError key | ValueError | TypeError | OverflowError

definition err_bind :: "py_error + 'a \<Rightarrow> ('a \<Rightarrow> py_error + 'b) \<Rightarrow> py_error + 'b" where
  "err_bind r f = (case r of Inl e \<Rightarrow> Inl e | Inr x \<Rightarrow> f x)"

subsection \<open>\<^verbatim>\<open>Series.idxmax\<close>, \<^verbatim>\<open>Series.idxmin\<close>\<close>

text \<open>
  numpy's \<^verbatim>\<open>argmax\<close>: the position of the first occurrence of the maximum.
\<close>

definition argmax :: "fl list \<Rightarrow> nat" where
  "argmax xs = length (takeWhile (\<lambda>v. v \<noteq> Max (set xs)) xs)"

definition argmin :: "fl list \<Rightarrow> nat" where
  "argmin xs = length (takeWhile (\<lambda>v. v \<noteq> Min (set xs)) xs)"

text \<open>
  \<^verbatim>\<open>nanops.nanargmax\<close>: the missing entries are filled with \<open>-inf\<close> before numpy's
  \<^verbatim>\<open>argmax\<close>, which raises \<open>ValueError\<close> on an empty sequence; the result is \<open>-1\<close>
  (here \<open>None\<close>) when every entry is missing.
\<close>

definition nanargmax :: "fl list \<Rightarrow> py_error + nat option" where
  "nanargmax xs =
     (if xs = [] then Inl ValueError
      else let i = argmax (fillna NInf xs)
           in if dropna xs = [] then Inr None else Inr (Some i))"

definition nanargmin :: "fl list \<Rightarrow> py_error + nat option" where
  "nanargmin xs =
     (if xs = [] then Inl ValueError
      else let i = argmin (fillna PInf xs)
           in if dropna xs = [] then Inr None else Inr (Some i))"

text \<open>
  \<^verbatim>\<open>Series.idxmax\<close> of pandas 2.x: the row label at that position; when every entry is
  missing the label returned is \<open>NaN\<close> (here \<open>None\<close>).
\<close>

definition idxmax :: "nat list \<Rightarrow> fl list \<Rightarrow> py_error + nat option" where
  "idxmax idx xs = err_bind (nanargmax xs) (\<lambda>r. Inr (map_option (\<lambda>i. idx ! i) r))"

definition idxmin :: "nat list \<Rightarrow> fl list \<Rightarrow> py_error + nat option" where
  "idxmin idx xs = err_bind (nanargmin xs) (\<lambda>r. Inr (map_option (\<lambda>i. idx ! i) r))"

text \<open>
  Python's \<^verbatim>\<open>int\<close> of a float: truncation towards zero; \<open>ValueError\<close> on \<open>NaN\<close>,
  \<open>OverflowError\<close> on an infinity.
\<close>

fun py_int :: "fl \<Rightarrow> py_error + int" where
  "py_int (Fin x) = Inr (if 0 \<le> x then \<lfloor>x\<rfloor> else \<lceil>x\<rceil>)"
| "py_int NaN = Inl ValueError"
| "py_int _ = Inl OverflowError"

section \<open>Tables\<close>

text \<open>
  A column that \<^verbatim>\<open>read_csv\<close> returns is numeric, or of dtype object: strings, with the
  missing-marker at empty fields. A table (\<^verbatim>\<open>DataFrame\<close>) is its row labels and its
  named columns, in order. \<^verbatim>\<open>read_csv\<close> labels the rows \<open>0, 1, 2, ...\<close>.
\<close>

datatype cell = Str string | Missing

datatype column = ObjCol "cell list" | NumCol "fl list"

record frame =
  index :: "nat list"
  columns :: "(string \<times> column) list"

text \<open>\<^verbatim>\<open>frame[name]\<close>: the column, or \<open>KeyError\<close>.\<close>

definition getitem :: "frame \<Rightarrow> string \<Rightarrow> py_error + column" where
  "getitem f name =
     (case map_of (columns f) name of
        None \<Rightarrow> Inl (KeyError (KStr name))
      | Some c \<Rightarrow> Inr c)"

text \<open>A numeric reduction of an object column raises \<open>TypeError\<close>.\<close>

fun as_float :: "column \<Rightarrow> py_error + fl list" where
  "as_float (NumCol xs) = Inr xs"
| "as_float (ObjCol _) = Inl TypeError"

definition numcol :: "frame \<Rightarrow> string \<Rightarrow> py_error + fl list" where
  "numcol f name = err_bind (getitem f name) as_float"

text \<open>\<^verbatim>\<open>column == s\<close> for a string \<open>s\<close>: elementwise, exact.\<close>

fun col_eq_str :: "column \<Rightarrow> string \<Rightarrow> bool list" where
  "col_eq_str (ObjCol cs) s = map (\<lambda>c. c = Str s) cs"
| "col_eq_str (NumCol xs) s = map (\<lambda>_. False) xs"

text \<open>\<^verbatim>\<open>frame[mask]\<close>: a new table of the rows where the mask is true.\<close>

definition select_rows :: "bool list \<Rightarrow> 'a list \<Rightarrow> 'a list" where
  "select_rows m xs = map snd (filter fst (zip m xs))"

fun col_select :: "bool list \<Rightarrow> column \<Rightarrow> column" where
  "col_select m (ObjCol cs) = ObjCol (select_rows m cs)"
| "col_select m (NumCol xs) = NumCol (select_rows m xs)"

definition getitem_mask :: "frame \<Rightarrow> bool list \<Rightarrow> frame" where
  "getitem_mask f m =
     \<lparr>index = select_rows m (index f),
      columns = map (\<lambda>(n, c). (n, col_select m c)) (columns f)\<rparr>"

text \<open>
  \<^verbatim>\<open>pd.to_numeric(column, errors="coerce")\<close>: a string that does not parse as a number
  becomes \<open>NaN\<close>. The parser of pandas is a parameter.
\<close>

definition to_numeric :: "(string \<Rightarrow> fl option) \<Rightarrow> column \<Rightarrow> fl list" where
  "to_numeric parse c =
     (case c of
        NumCol xs \<Rightarrow> xs
      | ObjCol cs \<Rightarrow>
          map (\<lambda>c. case c of
                      Missing \<Rightarrow> NaN
                    | Str s \<Rightarrow> (case parse s of None \<Rightarrow> NaN | Some x \<Rightarrow> x)) cs)"

text \<open>
  \<^verbatim>\<open>frame.loc[label, name]\<close>: the entry of a numeric column at the row of that label.
  A label that is \<open>NaN\<close> or in no row raises \<open>KeyError\<close>; a label of several rows
  gives a series, of which \<^verbatim>\<open>int\<close> raises \<open>TypeError\<close>.
\<close>

definition loc :: "frame \<Rightarrow> nat option \<Rightarrow> string \<Rightarrow> py_error + fl" where
  "loc f lab name =
     (case lab of
        None \<Rightarrow> Inl (KeyError KNaN)
      | Some l \<Rightarrow>
          (case filter (\<lambda>p. index f ! p = l) [0..<length (index f)] of
             [] \<Rightarrow> Inl (KeyError (KInt (int l)))
           | [p] \<Rightarrow> err_bind (numcol f name) (\<lambda>xs. Inr (xs ! p))
           | _ \<Rightarrow> Inl TypeError))"

subsection \<open>The store\<close>

text \<open>
  Tables are objects: the variables \<^verbatim>\<open>df\<close> and \<^verbatim>\<open>colombia\<close> hold addresses into a
  store. \<^verbatim>\<open>frame[mask]\<close> and \<^verbatim>\<open>.copy()\<close> each allocate a new table;
  \<^verbatim>\<open>frame[name] = column\<close> changes the table at the address, replacing the column
  of that name or appending a new one.
\<close>

type_synonym heap = "frame list"

definition alloc :: "heap \<Rightarrow> frame \<Rightarrow> heap \<times> nat" where
  "alloc h f = (h @ [f], length h)"

definition setitem :: "heap \<Rightarrow> nat \<Rightarrow> string \<Rightarrow> column \<Rightarrow> heap" where
  "setitem h a name c =
     h[a := (h ! a)\<lparr>columns := AList.update name c (columns (h ! a))\<rparr>]"

section \<open>The script\<close>

text \<open>The name of the year column of line 40 (A, n with tilde, o), as UTF-8 bytes.\<close>

definition col_anio :: string where
  "col_anio = [CHR ''A'', CHR 0xC3, CHR 0xB1, CHR ''o'']"

subsection \<open>Line 29: the rows of Colombia\<close>

text \<open>\<^verbatim>\<open>colombia = df[df["Country Name"] == "Colombia"].copy()\<close>\<close>

definition filtrar :: "heap \<Rightarrow> nat \<Rightarrow> heap \<times> (py_error + nat)" where
  "filtrar h df =
     (case getitem (h ! df) ''Country Name'' of
        Inl e \<Rightarrow> (h, Inl e)
      | Inr c \<Rightarrow>
          (let (h1, tmp) = alloc h (getitem_mask (h ! df) (col_eq_str c ''Colombia''));
               (h2, colombia) = alloc h1 (h1 ! tmp)
           in (h2, Inr colombia)))"

subsection \<open>Lines 40 and 41: numeric columns\<close>

definition limpieza :: "(string \<Rightarrow> fl option) \<Rightarrow> heap \<Rightarrow> nat \<Rightarrow> heap \<times> (py_error + unit)" where
  "limpieza parse h colombia =
     (case getitem (h ! colombia) ''Year'' of
        Inl e \<Rightarrow> (h, Inl e)
      | Inr y \<Rightarrow>
          (let h1 = setitem h colombia col_anio (NumCol (to_numeric parse y))
           in case getitem (h1 ! colombia) ''Value'' of
                Inl e \<Rightarrow> (h1, Inl e)
              | Inr v \<Rightarrow>
                  (setitem h1 colombia ''PIB (USD)'' (NumCol (to_numeric parse v)),
                   Inr ())))"

subsection \<open>Lines 48 to 54: the seven statistics\<close>

text \<open>
  Each is a function of the column \<^verbatim>\<open>PIB (USD)\<close>. \<^verbatim>\<open>mode()[0]\<close> looks the label
  \<open>0\<close> up in the result of \<^verbatim>\<open>mode()\<close> and raises \<open>KeyError\<close> when it is empty.
  \<^verbatim>\<open>desviacion / media\<close> divides two numpy floats: a zero divisor gives an infinity
  or \<open>NaN\<close>, with a warning and no exception.
\<close>

definition media :: "fl list \<Rightarrow> fl" where
  "media pib = series_mean pib"

definition mediana :: "fl list \<Rightarrow> fl" where
  "mediana pib = series_median pib"

definition moda :: "fl list \<Rightarrow> py_error + fl" where
  "moda pib = (case series_mode pib of [] \<Rightarrow> Inl (KeyError (KInt 0)) | m # _ \<Rightarrow> Inr m)"

definition rango :: "fl list \<Rightarrow> fl" where
  "rango pib = fl_sub (series_max pib) (series_min pib)"

definition varianza :: "fl list \<Rightarrow> fl" where
  "varianza pib = series_var pib"

definition desviacion :: "fl list \<Rightarrow> fl" where
  "desviacion pib = series_std pib"

definition coef_variacion :: "fl list \<Rightarrow> fl" where
  "coef_variacion pib = fl_mul (fl_div (desviacion pib) (media pib)) (Fin 100)"

record stats =
  s_media :: fl
  s_mediana :: fl
  s_moda :: fl
  s_rango :: fl
  s_varianza :: fl
  s_desviacion :: fl
  s_coef_variacion :: fl

definition medidas :: "frame \<Rightarrow> py_error + stats" where
  "medidas colombia =
     err_bind (numcol colombia ''PIB (USD)'') (\<lambda>pib.
     err_bind (moda pib) (\<lambda>m.
       Inr \<lparr>s_media = media pib, s_mediana = mediana pib, s_moda = m,
            s_rango = rango pib, s_varianza = varianza pib,
            s_desviacion = desviacion pib,
            s_coef_variacion = coef_variacion pib\<rparr>))"

subsection \<open>Line 71: the growth column\<close>

definition calcular_crecimiento :: "heap \<Rightarrow> nat \<Rightarrow> heap \<times> (py_error + unit)" where
  "calcular_crecimiento h colombia =
     (case numcol (h ! colombia) ''PIB (USD)'' of
        Inl e \<Rightarrow> (h, Inl e)
      | Inr pib \<Rightarrow>
          (setitem h colombia ''Crecimiento (%)'' (NumCol (crecimiento pib)), Inr ()))"

subsection \<open>Lines 138 to 141: the conclusions\<close>

definition crec_max :: "frame \<Rightarrow> py_error + fl" where
  "crec_max colombia =
     err_bind (numcol colombia ''Crecimiento (%)'') (\<lambda>g. Inr (series_max g))"

definition crec_min :: "frame \<Rightarrow> py_error + fl" where
  "crec_min colombia =
     err_bind (numcol colombia ''Crecimiento (%)'') (\<lambda>g. Inr (series_min g))"

definition anio_max :: "frame \<Rightarrow> py_error + int" where
  "anio_max colombia =
     err_bind (numcol colombia ''Crecimiento (%)'') (\<lambda>g.
     err_bind (idxmax (index colombia) g) (\<lambda>l.
     err_bind (loc colombia l col_anio) py_int))"

definition anio_min :: "frame \<Rightarrow> py_error + int" where
  "anio_min colombia =
     err_bind (numcol colombia ''Crecimiento (%)'') (\<lambda>g.
     err_bind (idxmin (index colombia) g) (\<lambda>l.
     err_bind (loc colombia l col_anio) py_int))"

record conclusions =
  c_crec_max :: fl
  c_crec_min :: fl
  c_anio_max :: int
  c_anio_min :: int

definition conclusiones :: "frame \<Rightarrow> py_error + conclusions" where
  "conclusiones colombia =
     err_bind (crec_max colombia) (\<lambda>cmax.
     err_bind (crec_min colombia) (\<lambda>cmin.
     err_bind (anio_max colombia) (\<lambda>amax.
     err_bind (anio_min colombia) (\<lambda>amin.
       Inr \<lparr>c_crec_max = cmax, c_crec_min = cmin,
            c_anio_max = amax, c_anio_min = amin\<rparr>))))"

subsection \<open>The whole run\<close>

text \<open>
  The run starts from the table that \<^verbatim>\<open>read_csv\<close> returned, at address \<open>0\<close>, and
  ends with the store and either the exception that stopped it or what the script
  prints. Printing and the five charts read the working table and change nothing;
  they are left out.
\<close>

definition script ::
  "(string \<Rightarrow> fl option) \<Rightarrow> frame \<Rightarrow> heap \<times> (py_error + stats \<times> conclusions)" where
  "script parse table =
     (let h0 = [table]; df = 0
      in case filtrar h0 df of
           (h1, Inl e) \<Rightarrow> (h1, Inl e)
         | (h1, Inr colombia) \<Rightarrow>
      (case limpieza parse h1 colombia of
           (h2, Inl e) \<Rightarrow> (h2, Inl e)
         | (h2, Inr _) \<Rightarrow>
      (case medidas (h2 ! colombia) of
           Inl e \<Rightarrow> (h2, Inl e)
         | Inr m \<Rightarrow>
      (case calcular_crecimiento h2 colombia of
           (h3, Inl e) \<Rightarrow> (h3, Inl e)
         | (h3, Inr _) \<Rightarrow>
      (case conclusiones (h3 ! colombia) of
           Inl e \<Rightarrow> (h3, Inl e)
         | Inr c \<Rightarrow> (h3, Inr (m, c)))))))"

section \<open>Notions for the statements\<close>



subsection \<open>Example tables\<close>


text \<open>
  Tables as \<^verbatim>\<open>read_csv\<close> returns them: one with no row of Colombia, one whose
  values of Colombia are not numbers, one where a year of Colombia is not a number
  (with a parser that reads \<^verbatim>\<open>1960\<close> only), and one with rows of three countries.
\<close>

definition tabla_sin_colombia :: frame where
  "tabla_sin_colombia =
     \<lparr>index = [0, 1],
      columns =
        [(''Country Name'', ObjCol [Str ''Peru'', Str ''Chile'']),
         (''Year'', NumCol [Fin 2000, Fin 2000]),
         (''Value'', NumCol [Fin 1, Fin 2])]\<rparr>"

definition tabla_no_numerica :: frame where
  "tabla_no_numerica =
     \<lparr>index = [0, 1, 2],
      columns =
        [(''Country Name'', ObjCol [Str ''Peru'', Str ''Colombia'', Str ''Colombia'']),
         (''Year'', NumCol [Fin 2000, Fin 2000, Fin 2001]),
         (''Value'', ObjCol [Str ''1'', Str ''n/a'', Missing])]\<rparr>"



definition tabla_ejemplo :: frame where
  "tabla_ejemplo =
     \<lparr>index = [0, 1, 2, 3, 4],
      columns =
        [(''Country Name'',
            ObjCol [Str ''Peru'', Str ''Colombia'', Str ''Chile'', Str ''Colombia'', Str ''Colombia'']),
         (''Year'', NumCol [Fin 1960, Fin 1960, Fin 1960, Fin 1961, Fin 1962]),
         (''Value'', NumCol [Fin 7, Fin 100, Fin 8, Fin 110, Fin 99])]\<rparr>"

section \<open>The growth column\<close>

lemma length_ffill_from [simp]: "length (ffill_from p xs) = length xs"
  by (induction xs arbitrary: p) auto

lemma length_shift1 [simp]: "length (shift1 xs) = length xs"
  by (simp add: shift1_def)

lemma length_pct_change [simp]: "length (pct_change fm xs) = length xs"
  by (cases fm) (simp_all add: pct_change_def ffill_def Let_def)


lemma fl_div_NaN_right [simp]: "fl_div d NaN = NaN"
  by (cases d) simp_all

lemma fl_mul_NaN_right [simp]: "fl_mul d NaN = NaN"
  by (cases d) simp_all

lemma fl_sub_NaN_left [simp]: "fl_sub NaN d = NaN"
  by (simp add: fl_sub_def)

lemma shift1_nth: "i < length xs \<Longrightarrow> shift1 xs ! i = (if i = 0 then NaN else xs ! (i - 1))"
  by (cases i) (simp_all add: shift1_def)

lemma pct_change_nth:
  "i < length xs \<Longrightarrow>
   pct_change fm xs ! i =
     (let data = (case fm of Pad \<Rightarrow> ffill xs | NoFill \<Rightarrow> xs)
      in if i = 0 then NaN else fl_sub (fl_div (data ! i) (data ! (i - 1))) (Fin 1))"
  by (cases fm) (simp_all add: pct_change_def ffill_def shift1_nth Let_def)














text \<open>With \<^verbatim>\<open>fill_method=None\<close> a missing gdp or predecessor would give a missing growth.\<close>

lemma pct_change_nofill_missing:
  "0 < i \<Longrightarrow> i < length xs \<Longrightarrow> isna (xs ! i) \<or> isna (xs ! (i - 1)) \<Longrightarrow>
   pct_change NoFill xs ! i = NaN"
  by (cases "xs ! i"; cases "xs ! (i - 1)") (auto simp add: pct_change_nth)




section \<open>The mode\<close>

lemma series_mode_nonempty:
  assumes "dropna pib \<noteq> []"
  shows "series_mode pib \<noteq> []"
proof -
  let ?vs = "dropna pib"
  let ?M = "Max (set (map (count_list ?vs) ?vs))"
  have "?M \<in> set (map (count_list ?vs) ?vs)"
    using assms by (intro Max_in) auto
  then obtain v where "v \<in> set ?vs" "count_list ?vs v = ?M"
    by auto
  then have "v \<in> set (remdups (filter (\<lambda>v. count_list ?vs v = ?M) ?vs))"
    by simp
  then have "sort (remdups (filter (\<lambda>v. count_list ?vs v = ?M) ?vs)) \<noteq> []"
    by (metis empty_iff empty_set set_sort)
  then show ?thesis
    using assms by (simp add: series_mode_def Let_def)
qed

lemma series_mode_set:
  assumes "dropna pib \<noteq> []"
  shows "set (series_mode pib) =
     {v \<in> set (dropna pib).
        count_list (dropna pib) v = Max (set (map (count_list (dropna pib)) (dropna pib)))}"
  using assms by (auto simp add: series_mode_def Let_def)

lemma series_mode_sorted: "sorted (series_mode pib)"
  by (simp add: series_mode_def Let_def)

lemma count_le_Max:
  "count_list vs v \<le> Max (set (map (count_list vs) vs))"
proof (cases "v \<in> set vs")
  case True
  then show ?thesis by (intro Max_ge) auto
next
  case False
  then show ?thesis by simp
qed

text \<open>
  Claim C5. When the gdp column has a valid entry, \<^verbatim>\<open>moda\<close> is one of the valid
  values, no value occurs more often, and it is the smallest of the values that occur
  as often.
\<close>

theorem moda_most_frequent_smallest:
  "dropna pib \<noteq> [] \<longrightarrow>
     (\<exists>m. moda pib = Inr m \<and> m \<in> set (dropna pib) \<and>
        (\<forall>v. count_list (dropna pib) v \<le> count_list (dropna pib) m) \<and>
        (\<forall>v. count_list (dropna pib) v = count_list (dropna pib) m \<longrightarrow> fl_le m v))"
proof
  assume ne: "dropna pib \<noteq> []"
  let ?vs = "dropna pib"
  let ?M = "Max (set (map (count_list ?vs) ?vs))"
  from series_mode_nonempty [OF ne] obtain m rest where mr: "series_mode pib = m # rest"
    by (cases "series_mode pib") auto
  then have "m \<in> set (series_mode pib)" by simp
  then have m: "m \<in> set ?vs" "count_list ?vs m = ?M"
    using series_mode_set [OF ne] by auto
  have le: "\<forall>y \<in> set rest. m \<le> y"
    using series_mode_sorted [of pib] mr by simp
  have tie: "fl_le m v" if "count_list ?vs v = count_list ?vs m" for v
  proof -
    have "0 < count_list ?vs m"
      using m(1) by (meson count_list_0_iff gr0I)
    with that have "v \<in> set ?vs"
      by (metis count_notin less_numeral_extra(3))
    with that m have "v \<in> set (series_mode pib)"
      using series_mode_set [OF ne] by simp
    with mr le have "m \<le> v" by auto
    then show ?thesis by (simp add: less_eq_fl_def)
  qed
  have "moda pib = Inr m"
    using mr by (simp add: moda_def)
  with m tie show "\<exists>m. moda pib = Inr m \<and> m \<in> set (dropna pib) \<and>
        (\<forall>v. count_list (dropna pib) v \<le> count_list (dropna pib) m) \<and>
        (\<forall>v. count_list (dropna pib) v = count_list (dropna pib) m \<longrightarrow> fl_le m v)"
    using count_le_Max [of ?vs] by auto
qed

theorem moda_most_frequent_smallest_witness:
  "dropna [Fin 3, Fin 1, NaN, Fin 3, Fin 1, Fin 2] \<noteq> [] \<and>
   moda [Fin 3, Fin 1, NaN, Fin 3, Fin 1, Fin 2] = Inr (Fin 1)"
proof -
  let ?p = "[Fin 3, Fin 1, NaN, Fin 3, Fin 1, Fin 2]"
  have d: "dropna ?p = [Fin 3, Fin 1, Fin 3, Fin 1, Fin 2]"
    by (simp add: dropna_def)
  from moda_most_frequent_smallest [of ?p] d
  obtain m where m: "moda ?p = Inr m" "m \<in> set (dropna ?p)"
    "\<forall>v. count_list (dropna ?p) v \<le> count_list (dropna ?p) m"
    "\<forall>v. count_list (dropna ?p) v = count_list (dropna ?p) m \<longrightarrow> fl_le m v"
    by auto
  from m(2) d have c: "m = Fin 3 \<or> m = Fin 1 \<or> m = Fin 2" by auto
  from m(3) have "count_list (dropna ?p) (Fin 1) \<le> count_list (dropna ?p) m" by blast
  with c d have c2: "m = Fin 3 \<or> m = Fin 1" by auto
  from m(4) have "count_list (dropna ?p) (Fin 1) = count_list (dropna ?p) m \<longrightarrow> fl_le m (Fin 1)"
    by blast
  with c2 d have "m = Fin 1" by auto
  with m(1) d show ?thesis by simp
qed

section \<open>Variance, standard deviation, coefficient of variation\<close>

lemma fl_sum_Fin: "fl_sum (map Fin rs) = Fin (sum_list rs)"
  by (induction rs) (simp_all add: fl_sum_def)

lemma series_mean_Fin:
  assumes "dropna pib = map Fin rs" "rs \<noteq> []"
  shows "series_mean pib = Fin (sum_list rs / real (length rs))"
  using assms by (simp add: series_mean_def fl_sum_Fin)

lemma series_var_Fin:
  assumes "dropna pib = map Fin rs" "2 \<le> length rs"
  shows "series_var pib = Fin (sample_variance rs)"
proof -
  let ?n = "length rs"
  let ?avg = "sum_list rs / real ?n"
  have n: "real ?n \<noteq> 0" "real (?n - 1) \<noteq> 0" "\<not> ?n \<le> 1"
    using assms(2) by auto
  have sq: "map (\<lambda>v. fl_mul (fl_sub (Fin ?avg) v) (fl_sub (Fin ?avg) v)) (map Fin rs) =
            map Fin (map (\<lambda>r. (r - ?avg)\<^sup>2) rs)"
    by (simp add: fl_sub_def power2_eq_square algebra_simps)
  have "series_var pib =
          fl_div (fl_sum (map (\<lambda>v. fl_mul (fl_sub (Fin ?avg) v) (fl_sub (Fin ?avg) v)) (map Fin rs)))
            (Fin (real (?n - 1)))"
    using n by (simp add: series_var_def assms(1) fl_sum_Fin Let_def del: map_map)
  also have "\<dots> = fl_div (Fin (\<Sum>r\<leftarrow>rs. (r - ?avg)\<^sup>2)) (Fin (real (?n - 1)))"
    by (simp only: sq fl_sum_Fin)
  also have "\<dots> = Fin (sample_variance rs)"
    using n(2) by (simp add: sample_variance_def del: of_nat_diff)
  finally show ?thesis .
qed




lemma fl_sqrt_cases: "fl_sqrt x = NaN \<or> fl_sqrt x = PInf \<or> (\<exists>s. 0 \<le> s \<and> fl_sqrt x = Fin s)"
  by (cases x) auto

text \<open>
  Claim C8, as stated, fails: the gdp values \<open>[-1, 1]\<close> have mean zero and a positive
  standard deviation, and the coefficient of variation is \<open>+inf\<close>, not missing.
\<close>

theorem coef_variacion_zero_mean_counterexample:
  "media [Fin (- 1), Fin 1] = Fin 0 \<and> coef_variacion [Fin (- 1), Fin 1] = PInf"
proof -
  have d: "dropna [Fin (- 1), Fin 1] = map Fin [- 1, 1]"
    by (simp add: dropna_def)
  have m: "media [Fin (- 1), Fin 1] = Fin 0"
    using series_mean_Fin [OF d] by (simp add: media_def)
  have "sample_variance [- 1, 1] = 2"
    by (simp add: sample_variance_def)
  then have "desviacion [Fin (- 1), Fin 1] = Fin (sqrt 2)"
    using series_var_Fin [OF d] by (simp add: desviacion_def series_std_def)
  with m show ?thesis
    by (simp add: coef_variacion_def fl_inf_def)
qed

text \<open>
  Claim C8, amended. With a mean that is a number other than zero, the coefficient of
  variation is the standard deviation over the mean, times 100; for \<open>[100, 100]\<close> it
  is 0. With a mean of exactly zero it is missing when the standard deviation is zero
  or missing, and \<open>+inf\<close> when the standard deviation is positive. No exception is
  raised.
\<close>

theorem coef_variacion_value:
  "(media pib = Fin mu \<and> mu \<noteq> 0 \<and> desviacion pib = Fin sd \<longrightarrow>
      coef_variacion pib = Fin (sd / mu * 100)) \<and>
   (media pib = Fin 0 \<longrightarrow>
      coef_variacion pib =
        (case desviacion pib of
           Fin sd \<Rightarrow> if sd = 0 then NaN else PInf
         | PInf \<Rightarrow> PInf
         | _ \<Rightarrow> NaN)) \<and>
   coef_variacion [Fin 100, Fin 100] = Fin 0"
proof (intro conjI impI)
  show "coef_variacion pib = Fin (sd / mu * 100)"
    if "media pib = Fin mu \<and> mu \<noteq> 0 \<and> desviacion pib = Fin sd"
    using that by (simp add: coef_variacion_def)
  show "coef_variacion pib =
        (case desviacion pib of
           Fin sd \<Rightarrow> if sd = 0 then NaN else PInf
         | PInf \<Rightarrow> PInf
         | _ \<Rightarrow> NaN)" if "media pib = Fin 0"
    using that fl_sqrt_cases [of "series_var pib"]
    by (auto simp add: coef_variacion_def desviacion_def series_std_def fl_inf_def)
  have d: "dropna [Fin 100, Fin 100] = map Fin [100, 100]"
    by (simp add: dropna_def)
  have m: "media [Fin 100, Fin 100] = Fin 100"
    using series_mean_Fin [OF d] by (simp add: media_def)
  have "sample_variance [100, 100] = 0"
    by (simp add: sample_variance_def)
  then have "desviacion [Fin 100, Fin 100] = Fin 0"
    using series_var_Fin [OF d] by (simp add: desviacion_def series_std_def)
  with m show "coef_variacion [Fin 100, Fin 100] = Fin 0"
    by (simp add: coef_variacion_def)
qed

theorem coef_variacion_value_witness:
  "media [Fin 2, Fin 2] = Fin 2 \<and> (2::real) \<noteq> 0 \<and> desviacion [Fin 2, Fin 2] = Fin 0 \<and>
   coef_variacion [Fin 2, Fin 2] = Fin 0 \<and>
   media [Fin 0] = Fin 0 \<and> coef_variacion [Fin 0] = NaN"
proof -
  have d: "dropna [Fin 2, Fin 2] = map Fin [2, 2]"
    by (simp add: dropna_def)
  have m: "media [Fin 2, Fin 2] = Fin 2"
    using series_mean_Fin [OF d] by (simp add: media_def)
  have "sample_variance [2, 2] = 0"
    by (simp add: sample_variance_def)
  then have s: "desviacion [Fin 2, Fin 2] = Fin 0"
    using series_var_Fin [OF d] by (simp add: desviacion_def series_std_def)
  have m0: "media [Fin 0] = Fin 0"
    by (simp add: media_def series_mean_def dropna_def fl_sum_def)
  have s0: "desviacion [Fin 0] = NaN"
    by (simp add: desviacion_def series_std_def series_var_def dropna_def)
  from coef_variacion_value [of "[Fin 2, Fin 2]" 2 0] m s
  have a: "coef_variacion [Fin 2, Fin 2] = Fin 0" by simp
  from coef_variacion_value [of "[Fin 0]"] m0 s0
  have b: "coef_variacion [Fin 0] = NaN" by simp
  from a b m s m0 show ?thesis by simp
qed

section \<open>Tables and the store\<close>

lemma select_rows_nths: "select_rows m xs = nths xs {i. i < length m \<and> m ! i}"
proof (induction xs arbitrary: m)
  case Nil
  then show ?case by (simp add: select_rows_def)
next
  case (Cons x xs)
  show ?case
  proof (cases m)
    case Nil
    then show ?thesis by (simp add: select_rows_def)
  next
    case (Cons b bs)
    have s: "{j. Suc j \<in> {i. i < length (b # bs) \<and> (b # bs) ! i}} = {i. i < length bs \<and> bs ! i}"
      by auto
    have "select_rows (b # bs) (x # xs) = (if b then [x] else []) @ select_rows bs xs"
      by (simp add: select_rows_def)
    also have "\<dots> = nths (x # xs) {i. i < length (b # bs) \<and> (b # bs) ! i}"
      by (simp only: nths_Cons s Cons.IH [of bs]) auto
    finally show ?thesis using Cons by simp
  qed
qed

lemma select_rows_none: "True \<notin> set m \<Longrightarrow> select_rows m xs = []"
  by (auto simp add: select_rows_def filter_empty_conv dest: set_zip_leftD)

lemma getitem_getitem_mask:
  "getitem (getitem_mask f m) n =
     (case getitem f n of Inl e \<Rightarrow> Inl e | Inr c \<Rightarrow> Inr (col_select m c))"
  by (simp add: getitem_def getitem_mask_def map_of_map split: option.splits)

lemma index_getitem_mask: "index (getitem_mask f m) = select_rows m (index f)"
  by (simp add: getitem_mask_def)

lemma length_setitem [simp]: "length (setitem h a n c) = length h"
  by (simp add: setitem_def)

lemma setitem_other: "b \<noteq> a \<Longrightarrow> setitem h a n c ! b = h ! b"
  by (simp add: setitem_def)

lemma getitem_setitem:
  "a < length h \<Longrightarrow>
   getitem (setitem h a n c ! a) n' = (if n' = n then Inr c else getitem (h ! a) n')"
  by (simp add: setitem_def getitem_def AList.update_conv')

lemma col_names_distinct:
  "col_anio \<noteq> ''Value''" "''Value'' \<noteq> col_anio"
  "''PIB (USD)'' \<noteq> col_anio" "col_anio \<noteq> ''PIB (USD)''"
  "''Crecimiento (%)'' \<noteq> col_anio" "col_anio \<noteq> ''Crecimiento (%)''"
  by (simp_all add: col_anio_def)

lemma filtrar_ok:
  assumes "getitem table ''Country Name'' = Inr c"
  shows "filtrar [table] 0 =
     ([table, getitem_mask table (col_eq_str c ''Colombia''),
       getitem_mask table (col_eq_str c ''Colombia'')], Inr 2)"
  using assms by (simp add: filtrar_def alloc_def)

lemma filtrar_frame: "h \<noteq> [] \<Longrightarrow> fst (filtrar h df) ! 0 = h ! 0"
  by (cases h) (simp_all add: filtrar_def alloc_def split: sum.splits)

lemma filtrar_addr: "h \<noteq> [] \<Longrightarrow> snd (filtrar h df) = Inr a \<Longrightarrow> a \<noteq> 0"
  by (auto simp add: filtrar_def alloc_def split: sum.splits)

lemma limpieza_frame: "colombia \<noteq> 0 \<Longrightarrow> fst (limpieza parse h colombia) ! 0 = h ! 0"
  by (simp add: limpieza_def setitem_other Let_def split: sum.splits)

lemma calcular_crecimiento_frame:
  "colombia \<noteq> 0 \<Longrightarrow> fst (calcular_crecimiento h colombia) ! 0 = h ! 0"
  by (simp add: calcular_crecimiento_def setitem_other split: sum.splits)

lemma script_frame: "fst (script parse table) ! 0 = table"
proof -
  obtain h1 r1 where f: "filtrar [table] 0 = (h1, r1)" by (cases "filtrar [table] 0")
  have h1: "h1 ! 0 = table"
    using filtrar_frame [of "[table]" 0] f by simp
  show ?thesis
  proof (cases r1)
    case (Inl e)
    with f h1 show ?thesis by (simp add: script_def)
  next
    case (Inr a)
    with f have a: "a \<noteq> 0" using filtrar_addr [of "[table]" 0 a] by simp
    obtain h2 r2 where l: "limpieza parse h1 a = (h2, r2)" by (cases "limpieza parse h1 a")
    have h2: "h2 ! 0 = table"
      using limpieza_frame [OF a, of parse h1] l h1 by simp
    obtain h3 r3 where c: "calcular_crecimiento h2 a = (h3, r3)"
      by (cases "calcular_crecimiento h2 a")
    have h3: "h3 ! 0 = table"
      using calcular_crecimiento_frame [OF a, of h2] c h2 by simp
    show ?thesis
      using f Inr l c h1 h2 h3
      by (simp add: script_def split: sum.splits)
  qed
qed

lemma limpieza_ok:
  assumes "a < length h" "getitem (h ! a) ''Year'' = Inr y" "getitem (h ! a) ''Value'' = Inr v"
  shows "limpieza parse h a =
     (setitem (setitem h a col_anio (NumCol (to_numeric parse y))) a ''PIB (USD)''
        (NumCol (to_numeric parse v)), Inr ())"
  using assms by (simp add: limpieza_def Let_def getitem_setitem col_names_distinct)

lemma script_pib:
  assumes c: "getitem table ''Country Name'' = Inr c"
    and y: "getitem table ''Year'' = Inr y"
    and v: "getitem table ''Value'' = Inr v"
    and e: "moda (to_numeric parse (col_select (col_eq_str c ''Colombia'') v)) = Inl e"
  shows "snd (script parse table) = Inl e"
proof -
  let ?m = "col_eq_str c ''Colombia''"
  let ?w = "getitem_mask table ?m"
  let ?h1 = "[table, ?w, ?w]"
  let ?pib = "to_numeric parse (col_select ?m v)"
  let ?h2 = "setitem (setitem ?h1 2 col_anio (NumCol (to_numeric parse (col_select ?m y)))) 2
               ''PIB (USD)'' (NumCol ?pib)"
  have l: "limpieza parse ?h1 2 = (?h2, Inr ())"
    using y v by (intro limpieza_ok) (simp_all add: getitem_getitem_mask)
  have "numcol (?h2 ! 2) ''PIB (USD)'' = Inr ?pib"
    by (simp add: numcol_def getitem_setitem err_bind_def)
  then have "medidas (?h2 ! 2) = Inl e"
    using e by (simp add: medidas_def err_bind_def)
  then show ?thesis
    using filtrar_ok [OF c] l by (simp add: script_def)
qed

lemma script_heap_at_moda:
  assumes c: "getitem table ''Country Name'' = Inr c"
    and y: "getitem table ''Year'' = Inr y"
    and v: "getitem table ''Value'' = Inr v"
    and e: "moda (to_numeric parse (col_select (col_eq_str c ''Colombia'') v)) = Inl e"
  shows "numcol (fst (script parse table) ! 2) ''PIB (USD)''
     = Inr (to_numeric parse (col_select (col_eq_str c ''Colombia'') v))"
proof -
  let ?m = "col_eq_str c ''Colombia''"
  let ?w = "getitem_mask table ?m"
  let ?h1 = "[table, ?w, ?w]"
  let ?pib = "to_numeric parse (col_select ?m v)"
  let ?h2 = "setitem (setitem ?h1 2 col_anio (NumCol (to_numeric parse (col_select ?m y)))) 2
               ''PIB (USD)'' (NumCol ?pib)"
  have l: "limpieza parse ?h1 2 = (?h2, Inr ())"
    using y v by (intro limpieza_ok) (simp_all add: getitem_getitem_mask)
  have n: "numcol (?h2 ! 2) ''PIB (USD)'' = Inr ?pib"
    by (simp add: numcol_def getitem_setitem err_bind_def)
  then have "medidas (?h2 ! 2) = Inl e"
    using e by (simp add: medidas_def err_bind_def)
  then have "fst (script parse table) = ?h2"
    using filtrar_ok [OF c] l by (simp add: script_def)
  with n show ?thesis by simp
qed

lemma to_numeric_empty: "True \<notin> set m \<Longrightarrow> to_numeric parse (col_select m col) = []"
  by (cases col) (simp_all add: to_numeric_def select_rows_none)

lemma moda_all_missing: "\<forall>x\<in>set pib. isna x \<Longrightarrow> moda pib = Inl (KeyError (KInt 0))"
  by (simp add: moda_def series_mode_def dropna_def filter_empty_conv)

lemma dropna_all_missing: "\<forall>x\<in>set pib. isna x \<Longrightarrow> dropna pib = []"
  by (simp add: dropna_def filter_empty_conv)

section \<open>The years of maximal and minimal growth\<close>



lemma length_fillna [simp]: "length (fillna d g) = length g"
  by (simp add: fillna_def)














section \<open>Whole runs\<close>

lemmas run_defs =
  script_def filtrar_def limpieza_def medidas_def calcular_crecimiento_def
  conclusiones_def crec_max_def crec_min_def anio_max_def anio_min_def
  getitem_def getitem_mask_def alloc_def setitem_def
  select_rows_def to_numeric_def numcol_def err_bind_def col_anio_def
  moda_def series_mode_def dropna_def media_def mediana_def series_mean_def series_median_def
  rango_def series_max_def series_min_def fillna_def varianza_def desviacion_def
  series_var_def series_std_def coef_variacion_def fl_sum_def fl_sub_def
  crecimiento_def pct_change_def ffill_def shift1_def
  idxmax_def idxmin_def nanargmax_def nanargmin_def argmax_def argmin_def loc_def
  less_eq_fl_def less_fl_def max_def min_def Let_def


text \<open>
  Claim C4, as stated, fails: on a table with no row of Colombia the run ends with the
  \<open>KeyError\<close> that \<^verbatim>\<open>mode()[0]\<close> raises, which nothing catches.
\<close>

theorem script_no_match_counterexample:
  "True \<notin> set (col_eq_str (ObjCol [Str ''Peru'', Str ''Chile'']) ''Colombia'') \<and>
   getitem tabla_sin_colombia ''Country Name'' = Inr (ObjCol [Str ''Peru'', Str ''Chile'']) \<and>
   snd (script (\<lambda>s. None) tabla_sin_colombia) = Inl (KeyError (KInt 0))"
  by (simp add: run_defs tabla_sin_colombia_def)

text \<open>
  Claim C4, amended. When no row has the country name, the filter gives an empty working
  table and raises nothing; the gdp column is empty, its mean and median are missing,
  and the run stops with the \<open>KeyError\<close> of \<^verbatim>\<open>mode()[0]\<close>, before the growth column
  and the conclusions. On an empty column the growth column is empty, and
  \<^verbatim>\<open>idxmax\<close> and \<^verbatim>\<open>idxmin\<close> raise \<open>ValueError\<close>.
\<close>

theorem script_no_match:
  "getitem table ''Country Name'' = Inr c \<and> getitem table ''Year'' = Inr y \<and>
   getitem table ''Value'' = Inr v \<and> True \<notin> set (col_eq_str c ''Colombia'') \<longrightarrow>
     snd (filtrar [table] 0) = Inr 2 \<and>
     index (fst (filtrar [table] 0) ! 2) = [] \<and>
     numcol (fst (script parse table) ! 2) ''PIB (USD)'' = Inr [] \<and>
     snd (script parse table) = Inl (KeyError (KInt 0)) \<and>
     media [] = NaN \<and> mediana [] = NaN \<and> moda [] = Inl (KeyError (KInt 0)) \<and>
     crecimiento [] = [] \<and> idxmax [] [] = Inl ValueError \<and> idxmin [] [] = Inl ValueError"
proof
  assume h: "getitem table ''Country Name'' = Inr c \<and> getitem table ''Year'' = Inr y \<and>
   getitem table ''Value'' = Inr v \<and> True \<notin> set (col_eq_str c ''Colombia'')"
  let ?m = "col_eq_str c ''Colombia''"
  have pib: "to_numeric parse (col_select ?m v) = []"
    using h by (simp add: to_numeric_empty)
  have a: "snd (filtrar [table] 0) = Inr 2"
    using h by (simp add: filtrar_ok)
  have b: "index (fst (filtrar [table] 0) ! 2) = []"
    using h by (simp add: filtrar_ok index_getitem_mask select_rows_none)
  have m: "moda [] = Inl (KeyError (KInt 0))"
    by (simp add: moda_def series_mode_def dropna_def)
  have s: "snd (script parse table) = Inl (KeyError (KInt 0))"
    using h m pib by (intro script_pib [of table c y v]) simp_all
  have p: "numcol (fst (script parse table) ! 2) ''PIB (USD)'' = Inr []"
    using h m pib script_heap_at_moda [of table c y v parse] by simp
  have e: "media [] = NaN" "mediana [] = NaN" "crecimiento [] = []"
    "idxmax [] [] = Inl ValueError" "idxmin [] [] = Inl ValueError"
    by (simp_all add: media_def mediana_def series_mean_def series_median_def dropna_def
        crecimiento_def pct_change_def ffill_def shift1_def idxmax_def idxmin_def
        nanargmax_def nanargmin_def err_bind_def)
  from a b s p m e
  show "snd (filtrar [table] 0) = Inr 2 \<and>
     index (fst (filtrar [table] 0) ! 2) = [] \<and>
     numcol (fst (script parse table) ! 2) ''PIB (USD)'' = Inr [] \<and>
     snd (script parse table) = Inl (KeyError (KInt 0)) \<and>
     media [] = NaN \<and> mediana [] = NaN \<and> moda [] = Inl (KeyError (KInt 0)) \<and>
     crecimiento [] = [] \<and> idxmax [] [] = Inl ValueError \<and> idxmin [] [] = Inl ValueError"
    by simp
qed

theorem script_no_match_witness:
  "getitem tabla_sin_colombia ''Country Name'' = Inr (ObjCol [Str ''Peru'', Str ''Chile'']) \<and>
   getitem tabla_sin_colombia ''Year'' = Inr (NumCol [Fin 2000, Fin 2000]) \<and>
   getitem tabla_sin_colombia ''Value'' = Inr (NumCol [Fin 1, Fin 2]) \<and>
   True \<notin> set (col_eq_str (ObjCol [Str ''Peru'', Str ''Chile'']) ''Colombia'') \<and>
   index (fst (filtrar [tabla_sin_colombia] 0) ! 2) = [] \<and>
   snd (script (\<lambda>s. Some (Fin 0)) tabla_sin_colombia) = Inl (KeyError (KInt 0))"
proof -
  have g: "getitem tabla_sin_colombia ''Country Name'' = Inr (ObjCol [Str ''Peru'', Str ''Chile''])"
    "getitem tabla_sin_colombia ''Year'' = Inr (NumCol [Fin 2000, Fin 2000])"
    "getitem tabla_sin_colombia ''Value'' = Inr (NumCol [Fin 1, Fin 2])"
    by (simp_all add: getitem_def tabla_sin_colombia_def)
  have n: "True \<notin> set (col_eq_str (ObjCol [Str ''Peru'', Str ''Chile'']) ''Colombia'')"
    by simp
  from script_no_match [of tabla_sin_colombia "ObjCol [Str ''Peru'', Str ''Chile'']"
      "NumCol [Fin 2000, Fin 2000]" "NumCol [Fin 1, Fin 2]" "\<lambda>s. Some (Fin 0)"] g n
  show ?thesis by simp
qed

text \<open>
  Claim C10. When no value of the rows of Colombia is a number, the gdp column holds no
  valid entry: mean and median are missing, the result of \<^verbatim>\<open>mode()\<close> is empty, and
  the run stops with the \<open>KeyError\<close> of \<^verbatim>\<open>mode()[0]\<close>.
\<close>

theorem script_no_valid_value:
  "getitem table ''Country Name'' = Inr c \<and> getitem table ''Year'' = Inr y \<and>
   getitem table ''Value'' = Inr v \<and>
   pib = to_numeric parse (col_select (col_eq_str c ''Colombia'') v) \<and>
   (\<forall>x\<in>set pib. isna x) \<longrightarrow>
     numcol (fst (script parse table) ! 2) ''PIB (USD)'' = Inr pib \<and>
     media pib = NaN \<and> mediana pib = NaN \<and>
     series_mode pib = [] \<and> moda pib = Inl (KeyError (KInt 0)) \<and>
     snd (script parse table) = Inl (KeyError (KInt 0))"
proof
  assume h: "getitem table ''Country Name'' = Inr c \<and> getitem table ''Year'' = Inr y \<and>
   getitem table ''Value'' = Inr v \<and>
   pib = to_numeric parse (col_select (col_eq_str c ''Colombia'') v) \<and>
   (\<forall>x\<in>set pib. isna x)"
  then have d: "dropna pib = []" by (simp add: dropna_all_missing)
  have m: "moda pib = Inl (KeyError (KInt 0))"
    using h by (simp add: moda_all_missing)
  have s: "snd (script parse table) = Inl (KeyError (KInt 0))"
    using h m by (intro script_pib [of table c y v]) simp_all
  have p: "numcol (fst (script parse table) ! 2) ''PIB (USD)'' = Inr pib"
    using h m script_heap_at_moda [of table c y v parse] by simp
  from d m s p
  show "numcol (fst (script parse table) ! 2) ''PIB (USD)'' = Inr pib \<and>
     media pib = NaN \<and> mediana pib = NaN \<and>
     series_mode pib = [] \<and> moda pib = Inl (KeyError (KInt 0)) \<and>
     snd (script parse table) = Inl (KeyError (KInt 0))"
    by (simp add: media_def mediana_def series_mean_def series_median_def series_mode_def)
qed

theorem script_no_valid_value_witness:
  "getitem tabla_no_numerica ''Country Name''
     = Inr (ObjCol [Str ''Peru'', Str ''Colombia'', Str ''Colombia'']) \<and>
   getitem tabla_no_numerica ''Year'' = Inr (NumCol [Fin 2000, Fin 2000, Fin 2001]) \<and>
   getitem tabla_no_numerica ''Value'' = Inr (ObjCol [Str ''1'', Str ''n/a'', Missing]) \<and>
   to_numeric (\<lambda>s. if s = ''1'' then Some (Fin 1) else None)
      (col_select (col_eq_str (ObjCol [Str ''Peru'', Str ''Colombia'', Str ''Colombia'']) ''Colombia'')
         (ObjCol [Str ''1'', Str ''n/a'', Missing])) = [NaN, NaN] \<and>
   isna NaN \<and>
   index (fst (script (\<lambda>s. if s = ''1'' then Some (Fin 1) else None) tabla_no_numerica) ! 2) = [1, 2] \<and>
   snd (script (\<lambda>s. if s = ''1'' then Some (Fin 1) else None) tabla_no_numerica)
     = Inl (KeyError (KInt 0))"
proof -
  let ?parse = "\<lambda>s. if s = ''1'' then Some (Fin 1) else None"
  let ?c = "ObjCol [Str ''Peru'', Str ''Colombia'', Str ''Colombia'']"
  let ?v = "ObjCol [Str ''1'', Str ''n/a'', Missing]"
  let ?pib = "to_numeric ?parse (col_select (col_eq_str ?c ''Colombia'') ?v)"
  have g: "getitem tabla_no_numerica ''Country Name'' = Inr ?c"
    "getitem tabla_no_numerica ''Year'' = Inr (NumCol [Fin 2000, Fin 2000, Fin 2001])"
    "getitem tabla_no_numerica ''Value'' = Inr ?v"
    by (simp_all add: getitem_def tabla_no_numerica_def)
  have p: "?pib = [NaN, NaN]"
    by (simp add: to_numeric_def select_rows_def)
  then have a: "\<forall>x\<in>set ?pib. isna x" by simp
  have i: "index (fst (script ?parse tabla_no_numerica) ! 2) = [1, 2]"
    by (simp add: run_defs tabla_no_numerica_def)
  from script_no_valid_value [of tabla_no_numerica ?c
      "NumCol [Fin 2000, Fin 2000, Fin 2001]" ?v ?pib ?parse] g a
  have "snd (script ?parse tabla_no_numerica) = Inl (KeyError (KInt 0))"
    by blast
  with g p i show ?thesis by simp
qed

text \<open>
  Claim C9. At the end of every run, stopped by an exception or not, the table at the
  address of \<^verbatim>\<open>df\<close> is the table that was loaded. The working table is at another
  address; its row labels and its columns are those of the rows where the country name
  is Colombia, in their order.
\<close>

theorem raw_table_unchanged:
  "fst (script parse table) ! 0 = table \<and>
   (getitem table ''Country Name'' = Inr c \<longrightarrow>
      (let m = col_eq_str c ''Colombia'';
           rows = {i. i < length m \<and> m ! i};
           h = fst (filtrar [table] 0)
       in snd (filtrar [table] 0) = Inr 2 \<and> h ! 0 = table \<and>
          index (h ! 2) = nths (index table) rows \<and>
          (\<forall>n cs. getitem table n = Inr (ObjCol cs) \<longrightarrow>
                    getitem (h ! 2) n = Inr (ObjCol (nths cs rows))) \<and>
          (\<forall>n xs. getitem table n = Inr (NumCol xs) \<longrightarrow>
                    getitem (h ! 2) n = Inr (NumCol (nths xs rows)))))"
proof (intro conjI impI)
  show "fst (script parse table) ! 0 = table"
    by (rule script_frame)
  assume c: "getitem table ''Country Name'' = Inr c"
  show "let m = col_eq_str c ''Colombia'';
           rows = {i. i < length m \<and> m ! i};
           h = fst (filtrar [table] 0)
       in snd (filtrar [table] 0) = Inr 2 \<and> h ! 0 = table \<and>
          index (h ! 2) = nths (index table) rows \<and>
          (\<forall>n cs. getitem table n = Inr (ObjCol cs) \<longrightarrow>
                    getitem (h ! 2) n = Inr (ObjCol (nths cs rows))) \<and>
          (\<forall>n xs. getitem table n = Inr (NumCol xs) \<longrightarrow>
                    getitem (h ! 2) n = Inr (NumCol (nths xs rows)))"
    by (simp add: filtrar_ok [OF c] Let_def index_getitem_mask getitem_getitem_mask
        select_rows_nths)
qed

theorem raw_table_unchanged_witness:
  "getitem tabla_ejemplo ''Country Name''
     = Inr (ObjCol [Str ''Peru'', Str ''Colombia'', Str ''Chile'', Str ''Colombia'', Str ''Colombia'']) \<and>
   fst (script (\<lambda>s. None) tabla_ejemplo) ! 0 = tabla_ejemplo \<and>
   snd (filtrar [tabla_ejemplo] 0) = Inr 2 \<and>
   index (fst (filtrar [tabla_ejemplo] 0) ! 2) = nths [0, 1, 2, 3, 4] {1, 3, 4}"
proof -
  let ?c = "ObjCol [Str ''Peru'', Str ''Colombia'', Str ''Chile'', Str ''Colombia'', Str ''Colombia'']"
  have g: "getitem tabla_ejemplo ''Country Name'' = Inr ?c"
    by (simp add: getitem_def tabla_ejemplo_def)
  have r: "{i. i < length (col_eq_str ?c ''Colombia'') \<and> col_eq_str ?c ''Colombia'' ! i} = {1, 3, 4}"
    by (auto simp add: less_Suc_eq eval_nat_numeral)
  have i: "index tabla_ejemplo = [0, 1, 2, 3, 4]"
    by (simp add: tabla_ejemplo_def)
  from raw_table_unchanged [of "\<lambda>s. None" tabla_ejemplo ?c] g
  show ?thesis
    by (simp only: Let_def r i)
qed

end
